theory Spec2Isabelle
  imports Main "HOL-Library.AList"
begin

section \<open>Data model of \<^verbatim>\<open>handlers/pod.py\<close>\<close>

text \<open>
  A label set is a Python dictionary from strings to strings; two label sets are compared
  with \<^verbatim>\<open>==\<close>, which is equality of the mappings.
\<close>

type_synonym labels = "string \<rightharpoonup> string"

text \<open>
  The raw Pod event. Only \<^verbatim>\<open>pod["metadata"]\<close> and its keys \<^verbatim>\<open>labels\<close>,
  \<^verbatim>\<open>namespace\<close> and \<^verbatim>\<open>name\<close> are read; a key that is absent is \<open>None\<close>.
\<close>

record metadata =
  md_labels :: "labels option"
  md_namespace :: "string option"
  md_name :: "string option"

record pod =
  metadata :: "metadata option"

datatype error = KeyError string | DatastoreError string

text \<open>
  An element of \<^verbatim>\<open>ipv4_nets\<close>: \<open>ip\<close> is \<^verbatim>\<open>str(ip_net.ip)\<close>, so the prefix
  \<^verbatim>\<open>10.0.0.5/32\<close> is \<open>\<lparr>ip = ''10.0.0.5'', prefixlen = 32\<rparr>\<close>. The networks are kept in the
  order in which the list comprehension of \<^verbatim>\<open>process_labels\<close> visits them.
\<close>

record ip_net =
  ip :: string
  prefixlen :: nat

text \<open>
  The base class \<^verbatim>\<open>Endpoint\<close> comes from pycalico; its fields are those that
  \<^verbatim>\<open>from_endpoint\<close> reads. \<^verbatim>\<open>KDEndpoint\<close> is the subclass that adds \<^verbatim>\<open>ipv4_nat\<close>.
\<close>

record endpoint =
  hostname :: string
  orchestrator_id :: string
  workload_id :: string
  endpoint_id :: string
  state :: string
  mac :: string
  name :: string
  ipv4_nets :: "ip_net list"
  ipv6_nets :: "ip_net list"
  profile_ids :: "string list"
  original_json :: "string option"
  labels :: labels

record nat_entry =
  int_ip :: string
  ext_ip :: string

record kd_endpoint = endpoint +
  ipv4_nat :: "nat_entry list option"

text \<open>JSON values, as far as \<^verbatim>\<open>to_json\<close> builds them; an object keeps its keys in a list.\<close>

datatype json = JNull | JStr string | JArr "json list" | JObj "(string \<times> json) list"

type_synonym json_object = "(string \<times> json) list"

text \<open>
  The calls made on the module-level \<^verbatim>\<open>client\<close>, in the order they are made.
\<close>

datatype client_call = GetEndpoints string | SetEndpoint kd_endpoint

text \<open>
  What the module imports and does not define: the constant \<^verbatim>\<open>K8S_NAMESPACE_LABEL\<close>
  (from \<^verbatim>\<open>constants\<close>), netaddr's \<^verbatim>\<open>IPAddress\<close> (here: whether the constructor
  returns, rather than raises, on the value handed to it), the two operations of the
  datastore client on a datastore of type \<open>'d\<close> (either may raise), and the dictionary
  that \<^verbatim>\<open>json.loads(super(KDEndpoint, self).to_json())\<close> yields for the base fields.
  All of them are parameters: every theorem below holds for each choice of them.
\<close>

record 'd env =
  K8S_NAMESPACE_LABEL :: string
  IPAddress :: "string option \<Rightarrow> bool"
  get_endpoints :: "'d \<Rightarrow> string \<Rightarrow> error + endpoint list"
  set_endpoint :: "kd_endpoint \<Rightarrow> 'd \<Rightarrow> error + 'd"
  super_to_json :: "endpoint \<Rightarrow> json_object"

text \<open>
  The process-wide state: the two module-level dictionaries, the datastore behind
  \<^verbatim>\<open>client\<close>, and the log of the calls made on \<^verbatim>\<open>client\<close>. A call of
  \<^verbatim>\<open>get_endpoints\<close> reads the datastore and leaves it as it is; within one handler
  invocation, and between two invocations that follow each other, nothing but
  \<^verbatim>\<open>set_endpoint\<close> changes it.
\<close>

record 'd globals =
  label_cache :: "string \<rightharpoonup> labels"
  endpoint_cache :: "string \<rightharpoonup> kd_endpoint"
  etcd :: 'd
  calls :: "client_call list"

section \<open>The Pod event parser\<close>

text \<open>
  \<^verbatim>\<open>pod["metadata"].get("labels", {})\<close> returns the event's own dictionary when the key is
  present, so the assignment \<^verbatim>\<open>labels[K8S_NAMESPACE_LABEL] = namespace\<close> writes into the
  event; with the key absent it writes into a fresh dictionary. The model returns the
  event as the call leaves it, next to the returned tuple. Each \<^verbatim>\<open>KeyError\<close> is raised
  before the assignment, so a failing call leaves the event as it was.
\<close>

definition parse_pod ::
  "('d, 'z) env_scheme \<Rightarrow> pod \<Rightarrow> error + (pod \<times> string \<times> string \<times> string \<times> labels)" where
  "parse_pod env pod =
     (case metadata pod of
        None \<Rightarrow> Inl (KeyError ''metadata'')
      | Some md \<Rightarrow>
          let labels0 = (case md_labels md of None \<Rightarrow> Map.empty | Some l \<Rightarrow> l) in
          (case md_namespace md of
             None \<Rightarrow> Inl (KeyError ''namespace'')
           | Some namespace \<Rightarrow>
               (case md_name md of
                  None \<Rightarrow> Inl (KeyError ''name'')
                | Some pod_name \<Rightarrow>
                    let wid = namespace @ ''.'' @ pod_name;
                        labels1 = labels0(K8S_NAMESPACE_LABEL env \<mapsto> namespace);
                        pod1 = (case md_labels md of
                                  None \<Rightarrow> pod
                                | Some _ \<Rightarrow> pod\<lparr>metadata := Some (md\<lparr>md_labels := Some labels1\<rparr>)\<rparr>)
                    in Inr (pod1, wid, namespace, pod_name, labels1))))"

section \<open>The endpoint adapter\<close>

text \<open>Python's truth value of \<^verbatim>\<open>kd_public_ip\<close> (\<^verbatim>\<open>None\<close> or a string) and of \<^verbatim>\<open>ipv4_nat\<close>.\<close>

fun truthy_str :: "string option \<Rightarrow> bool" where
  "truthy_str None = False"
| "truthy_str (Some v) = (v \<noteq> [])"

fun truthy_list :: "'a list option \<Rightarrow> bool" where
  "truthy_list None = False"
| "truthy_list (Some xs) = (xs \<noteq> [])"

definition process_labels :: "('d, 'z) env_scheme \<Rightarrow> kd_endpoint \<Rightarrow> kd_endpoint" where
  "process_labels env self =
     (if labels self = Map.empty then self\<lparr>ipv4_nat := None\<rparr>
      else
        let kd_public_ip0 = labels self ''kuberdock-public-ip'';
            kd_public_ip = (if IPAddress env kd_public_ip0 then kd_public_ip0 else None)
        in if truthy_str kd_public_ip
           then (case kd_public_ip of
                   Some v \<Rightarrow>
                     self\<lparr>ipv4_nat :=
                       Some (map (\<lambda>n. \<lparr>int_ip = ip n, ext_ip = v\<rparr>) (ipv4_nets self))\<rparr>
                 | None \<Rightarrow> self\<lparr>ipv4_nat := None\<rparr>)
           else self\<lparr>ipv4_nat := None\<rparr>)"

definition from_endpoint :: "('d, 'z) env_scheme \<Rightarrow> endpoint \<Rightarrow> kd_endpoint" where
  "from_endpoint env ep =
     process_labels env
       \<lparr>hostname = hostname ep, orchestrator_id = orchestrator_id ep,
        workload_id = workload_id ep, endpoint_id = endpoint_id ep,
        state = state ep, mac = mac ep, name = name ep,
        ipv4_nets = ipv4_nets ep, ipv6_nets = ipv6_nets ep,
        profile_ids = profile_ids ep, original_json = original_json ep,
        labels = labels ep, ipv4_nat = None\<rparr>"

text \<open>
  \<^verbatim>\<open>to_json\<close>, up to the final \<^verbatim>\<open>json.dumps\<close>: the value is the dictionary \<^verbatim>\<open>data\<close> that
  is handed to it.
\<close>

definition nat_entry_json :: "nat_entry \<Rightarrow> json" where
  "nat_entry_json e = JObj [(''int_ip'', JStr (int_ip e)), (''ext_ip'', JStr (ext_ip e))]"

definition to_json :: "('d, 'z) env_scheme \<Rightarrow> kd_endpoint \<Rightarrow> json_object" where
  "to_json env self =
     (let data = super_to_json env (endpoint.truncate self) in
      if truthy_list (ipv4_nat self)
      then (case ipv4_nat self of
              Some entries \<Rightarrow> AList.update ''ipv4_nat'' (JArr (map nat_entry_json entries)) data
            | None \<Rightarrow> data)
      else data)"

section \<open>The cache reloader\<close>

definition cache_endpoint :: "kd_endpoint \<Rightarrow> 'd globals \<Rightarrow> 'd globals" where
  "cache_endpoint ep s =
     s\<lparr>endpoint_cache := (endpoint_cache s)(workload_id ep \<mapsto> ep),
       label_cache := (label_cache s)(workload_id ep \<mapsto> labels ep)\<rparr>"

definition load_caches :: "('d, 'z) env_scheme \<Rightarrow> 'd globals \<Rightarrow> error option \<times> 'd globals" where
  "load_caches env s =
     (let s1 = s\<lparr>calls := calls s @ [GetEndpoints ''k8s'']\<rparr> in
      case get_endpoints env (etcd s1) ''k8s'' of
        Inl e \<Rightarrow> (Some e, s1)
      | Inr eps \<Rightarrow> (None, fold cache_endpoint (map (from_endpoint env) eps) s1))"

section \<open>The event handlers\<close>

text \<open>
  A handler returns \<open>(None, s')\<close> when it returns, and \<open>(Some e, s')\<close> when it raises
  \<open>e\<close>; \<open>s'\<close> is the process-wide state it leaves behind. The event object a handler was
  given is not used after \<^verbatim>\<open>parse_pod\<close>. The calls on \<^verbatim>\<open>_log\<close> are left out. An
  endpoint object is always true, so \<^verbatim>\<open>not endpoint\<close> holds exactly when the lookup gave
  \<^verbatim>\<open>None\<close>. Local variables that share a name with a field of a record are renamed:
  \<open>wid\<close> is \<^verbatim>\<open>workload_id\<close>, \<open>labels1\<close> is \<^verbatim>\<open>labels\<close>, \<open>pod_name\<close> is \<^verbatim>\<open>name\<close>.
\<close>

definition add_pod :: "('d, 'z) env_scheme \<Rightarrow> pod \<Rightarrow> 'd globals \<Rightarrow> error option \<times> 'd globals" where
  "add_pod env pod s =
     (case parse_pod env pod of
        Inl e \<Rightarrow> (Some e, s)
      | Inr (_, wid, _, _, labels1) \<Rightarrow>
          (None, s\<lparr>label_cache := (label_cache s)(wid \<mapsto> labels1)\<rparr>))"

text \<open>
  Lines 92 to 100. The endpoint found in the cache is changed in place (lines 92 and 93)
  before \<^verbatim>\<open>set_endpoint\<close> is called, so the endpoint cache holds the changed endpoint
  also when that call raises; the label cache is written only after it has returned.
\<close>

definition write_endpoint ::
  "('d, 'z) env_scheme \<Rightarrow> string \<Rightarrow> labels \<Rightarrow> kd_endpoint \<Rightarrow> 'd globals \<Rightarrow> error option \<times> 'd globals" where
  "write_endpoint env wid labels1 endpoint0 s =
     (let endpoint1 = process_labels env (endpoint0\<lparr>labels := labels1\<rparr>);
          s1 = s\<lparr>endpoint_cache := (endpoint_cache s)(wid \<mapsto> endpoint1),
                 calls := calls s @ [SetEndpoint endpoint1]\<rparr>
      in case set_endpoint env endpoint1 (etcd s1) of
           Inl e \<Rightarrow> (Some e, s1)
         | Inr d \<Rightarrow>
             (None, s1\<lparr>etcd := d,
                        label_cache := (label_cache s1)(wid \<mapsto> labels1),
                        endpoint_cache := (endpoint_cache s1)(wid \<mapsto> endpoint1)\<rparr>))"

definition update_pod :: "('d, 'z) env_scheme \<Rightarrow> pod \<Rightarrow> 'd globals \<Rightarrow> error option \<times> 'd globals" where
  "update_pod env pod s =
     (case parse_pod env pod of
        Inl e \<Rightarrow> (Some e, s)
      | Inr (_, wid, _, _, labels1) \<Rightarrow>
          let old_labels = label_cache s wid in
          if old_labels = Some labels1 then (None, s)
          else
            (case endpoint_cache s wid of
               Some endpoint0 \<Rightarrow> write_endpoint env wid labels1 endpoint0 s
             | None \<Rightarrow>
                 (case load_caches env s of
                    (Some e, s1) \<Rightarrow> (Some e, s1)
                  | (None, s1) \<Rightarrow>
                      (case endpoint_cache s1 wid of
                         None \<Rightarrow> (None, s1)
                       | Some endpoint0 \<Rightarrow> write_endpoint env wid labels1 endpoint0 s1))))"

text \<open>\<^verbatim>\<open>del d[k]\<close> raises \<^verbatim>\<open>KeyError\<close> when the key is absent.\<close>

definition del :: "('k \<rightharpoonup> 'v) \<Rightarrow> 'k \<Rightarrow> error + ('k \<rightharpoonup> 'v)" where
  "del d k = (case d k of None \<Rightarrow> Inl (KeyError ''del'') | Some _ \<Rightarrow> Inr (d(k := None)))"

text \<open>
  \<^verbatim>\<open>try: del d[k]\<close> with \<^verbatim>\<open>except KeyError: pass\<close>: a \<^verbatim>\<open>KeyError\<close> leaves the
  dictionary as it is, any other exception goes on to the caller.
\<close>

definition try_del :: "('k \<rightharpoonup> 'v) \<Rightarrow> 'k \<Rightarrow> error + ('k \<rightharpoonup> 'v)" where
  "try_del d k =
     (case del d k of
        Inr d1 \<Rightarrow> Inr d1
      | Inl (KeyError _) \<Rightarrow> Inr d
      | Inl e \<Rightarrow> Inl e)"

definition delete_pod :: "('d, 'z) env_scheme \<Rightarrow> pod \<Rightarrow> 'd globals \<Rightarrow> error option \<times> 'd globals" where
  "delete_pod env pod s =
     (case parse_pod env pod of
        Inl e \<Rightarrow> (Some e, s)
      | Inr (_, wid, _, _, _) \<Rightarrow>
          (case try_del (label_cache s) wid of
             Inl e \<Rightarrow> (Some e, s)
           | Inr d1 \<Rightarrow>
               let s1 = s\<lparr>label_cache := d1\<rparr> in
               (case try_del (endpoint_cache s1) wid of
                  Inl e \<Rightarrow> (Some e, s1)
                | Inr d2 \<Rightarrow> (None, s1\<lparr>endpoint_cache := d2\<rparr>))))"

section \<open>Reading the call log\<close>

text \<open>The calls a handler added to the log, and the two kinds of call.\<close>

definition new_calls :: "'d globals \<Rightarrow> 'd globals \<Rightarrow> client_call list" where
  "new_calls s s' = drop (length (calls s)) (calls s')"

fun is_write :: "client_call \<Rightarrow> bool" where
  "is_write (SetEndpoint _) = True"
| "is_write (GetEndpoints _) = False"

fun is_read :: "client_call \<Rightarrow> bool" where
  "is_read (GetEndpoints _) = True"
| "is_read (SetEndpoint _) = False"

section \<open>A concrete choice of the collaborators\<close>

text \<open>
  The theorems are instantiated on these: addresses are dotted quads of decimal octets,
  the datastore is a list of endpoint records, \<^verbatim>\<open>get_endpoints\<close> selects by orchestrator
  tag, \<^verbatim>\<open>set_endpoint\<close> replaces the record with the same identity, and the base class
  serialises a few of its fields.
\<close>

fun split_dots :: "string \<Rightarrow> string list" where
  "split_dots [] = [[]]"
| "split_dots (c # cs) =
     (if c = CHR ''.'' then [] # split_dots cs
      else (case split_dots cs of p # ps \<Rightarrow> (c # p) # ps | [] \<Rightarrow> [[c]]))"

definition digit_val :: "char \<Rightarrow> nat option" where
  "digit_val c = map_of (zip ''0123456789'' [0 ..< 10]) c"

fun octet_val :: "nat \<Rightarrow> string \<Rightarrow> nat option" where
  "octet_val n [] = Some n"
| "octet_val n (c # cs) =
     (case digit_val c of None \<Rightarrow> None | Some d \<Rightarrow> octet_val (10 * n + d) cs)"

definition is_octet :: "string \<Rightarrow> bool" where
  "is_octet p = (p \<noteq> [] \<and> (case octet_val 0 p of None \<Rightarrow> False | Some n \<Rightarrow> n \<le> 255))"

definition dotted_quad :: "string option \<Rightarrow> bool" where
  "dotted_quad v =
     (case v of
        None \<Rightarrow> False
      | Some a \<Rightarrow> length (split_dots a) = 4 \<and> list_all is_octet (split_dots a))"

definition same_identity :: "endpoint \<Rightarrow> endpoint \<Rightarrow> bool" where
  "same_identity a b =
     (hostname a = hostname b \<and> orchestrator_id a = orchestrator_id b \<and>
      workload_id a = workload_id b \<and> endpoint_id a = endpoint_id b)"

definition list_get_endpoints :: "endpoint list \<Rightarrow> string \<Rightarrow> error + endpoint list" where
  "list_get_endpoints d orch = Inr (filter (\<lambda>e. orchestrator_id e = orch) d)"

definition list_set_endpoint :: "kd_endpoint \<Rightarrow> endpoint list \<Rightarrow> error + endpoint list" where
  "list_set_endpoint ep d =
     Inr (filter (\<lambda>e. \<not> same_identity e (endpoint.truncate ep)) d @ [endpoint.truncate ep])"

definition base_json :: "endpoint \<Rightarrow> json_object" where
  "base_json e =
     [(''state'', JStr (state e)), (''name'', JStr (name e)), (''mac'', JStr (mac e)),
      (''profile_ids'', JArr (map JStr (profile_ids e))),
      (''ipv4_nets'', JArr (map (\<lambda>n. JStr (ip n)) (ipv4_nets e))),
      (''ipv6_nets'', JArr (map (\<lambda>n. JStr (ip n)) (ipv6_nets e)))]"

definition demo_env :: "endpoint list env" where
  "demo_env =
     \<lparr>K8S_NAMESPACE_LABEL = ''calico/k8s_ns'', IPAddress = dotted_quad,
      get_endpoints = list_get_endpoints, set_endpoint = list_set_endpoint,
      super_to_json = base_json\<rparr>"

text \<open>A Pod \<^verbatim>\<open>web\<close> in namespace \<^verbatim>\<open>default\<close>, with and without declared labels.\<close>

definition pod_web :: "labels option \<Rightarrow> pod" where
  "pod_web l =
     \<lparr>metadata = Some \<lparr>md_labels = l, md_namespace = Some ''default'', md_name = Some ''web''\<rparr>\<rparr>"

text \<open>Its endpoint as the datastore holds it, with the internal prefix \<^verbatim>\<open>10.0.0.5/32\<close>.\<close>

definition ep_web :: "labels \<Rightarrow> endpoint" where
  "ep_web l =
     \<lparr>hostname = ''node1'', orchestrator_id = ''k8s'', workload_id = ''default.web'',
      endpoint_id = ''eth0'', state = ''active'', mac = ''ee:ee:ee:ee:ee:ee'',
      name = ''cali0'', ipv4_nets = [\<lparr>ip = ''10.0.0.5'', prefixlen = 32\<rparr>], ipv6_nets = [],
      profile_ids = [], original_json = None, labels = l\<rparr>"

definition kd_web :: "labels \<Rightarrow> nat_entry list option \<Rightarrow> kd_endpoint" where
  "kd_web l n = endpoint.extend (ep_web l) (kd_endpoint.fields n)"

definition globals0 :: "endpoint list \<Rightarrow> endpoint list globals" where
  "globals0 d = \<lparr>label_cache = Map.empty, endpoint_cache = Map.empty, etcd = d, calls = []\<rparr>"

section \<open>Auxiliary facts\<close>

lemma process_labels_truncate:
  "endpoint.truncate (process_labels env e) = endpoint.truncate e"
  by (simp add: process_labels_def Let_def endpoint.truncate_def split: option.splits)

lemma process_labels_labels: "labels (process_labels env e) = labels e"
  by (simp add: process_labels_def Let_def split: option.splits)

lemma process_labels_workload_id: "workload_id (process_labels env e) = workload_id e"
  by (simp add: process_labels_def Let_def split: option.splits)

lemma from_endpoint_workload_id: "workload_id (from_endpoint env e) = workload_id e"
  by (simp add: from_endpoint_def process_labels_workload_id)

lemma from_endpoint_labels: "labels (from_endpoint env e) = labels e"
  by (simp add: from_endpoint_def process_labels_labels)

lemma fold_cache_etcd: "etcd (fold cache_endpoint kds s) = etcd s"
  by (induction kds arbitrary: s) (simp_all add: cache_endpoint_def)

lemma fold_cache_calls: "calls (fold cache_endpoint kds s) = calls s"
  by (induction kds arbitrary: s) (simp_all add: cache_endpoint_def)

lemma fold_cache_endpoint_cache:
  "endpoint_cache (fold cache_endpoint kds s) =
     endpoint_cache s ++ map_of (rev (map (\<lambda>e. (workload_id e, e)) kds))"
  by (induction kds arbitrary: s) (simp_all add: cache_endpoint_def)

lemma fold_cache_label_cache:
  "label_cache (fold cache_endpoint kds s) =
     label_cache s ++ map_of (rev (map (\<lambda>e. (workload_id e, labels e)) kds))"
  by (induction kds arbitrary: s) (simp_all add: cache_endpoint_def)

lemma parse_pod_web:
  "parse_pod demo_env (pod_web l) =
     Inr ((case l of None \<Rightarrow> pod_web None
           | Some m \<Rightarrow> pod_web (Some (m(''calico/k8s_ns'' \<mapsto> ''default'')))),
          ''default.web'', ''default'', ''web'',
          (case l of None \<Rightarrow> Map.empty | Some m \<Rightarrow> m)(''calico/k8s_ns'' \<mapsto> ''default''))"
  by (simp add: parse_pod_def pod_web_def demo_env_def Let_def split: option.splits)

lemma web_labels_differ:
  "[''app'' \<mapsto> ''web''] \<noteq> [''app'' \<mapsto> ''web'', ''calico/k8s_ns'' \<mapsto> ''default'']"
proof
  assume "[''app'' \<mapsto> ''web''] = [''app'' \<mapsto> ''web'', ''calico/k8s_ns'' \<mapsto> ''default'']"
  then have "[''app'' \<mapsto> ''web''] ''calico/k8s_ns'' =
             [''app'' \<mapsto> ''web'', ''calico/k8s_ns'' \<mapsto> ''default''] ''calico/k8s_ns''"
    by (rule arg_cong)
  then show False by simp
qed

lemma demo_IPAddress:
  "IPAddress demo_env (Some ''1.2.3.4'')" "\<not> IPAddress demo_env (Some ''not-an-ip'')"
proof -
  show "IPAddress demo_env (Some ''1.2.3.4'')"
    unfolding demo_env_def env.simps by code_simp
  show "\<not> IPAddress demo_env (Some ''not-an-ip'')"
    unfolding demo_env_def env.simps by code_simp
qed

lemma kd_web_simps:
  "labels (kd_web l n) = l" "ipv4_nat (kd_web l n) = n"
  "ipv4_nets (kd_web l n) = [\<lparr>ip = ''10.0.0.5'', prefixlen = 32\<rparr>]"
  "workload_id (kd_web l n) = ''default.web''"
  "endpoint.truncate (kd_web l n) = ep_web l"
  "(kd_web l n)\<lparr>ipv4_nat := m\<rparr> = kd_web l m"
  "(kd_web l n)\<lparr>labels := l'\<rparr> = kd_web l' n"
  by (simp_all add: kd_web_def ep_web_def endpoint.extend_def endpoint.truncate_def kd_endpoint.fields_def)

lemma map_add_twice: "(m ++ f) ++ f = m ++ f"
  by (rule ext) (simp add: map_add_def split: option.splits)

lemma load_caches_ok:
  assumes "get_endpoints env (etcd s) ''k8s'' = Inr eps"
  shows "load_caches env s =
           (None, fold cache_endpoint (map (from_endpoint env) eps)
                    (s\<lparr>calls := calls s @ [GetEndpoints ''k8s'']\<rparr>))"
  using assms by (simp add: load_caches_def Let_def)

lemma load_caches_raises:
  assumes "get_endpoints env (etcd s) ''k8s'' = Inl e"
  shows "load_caches env s = (Some e, s\<lparr>calls := calls s @ [GetEndpoints ''k8s'']\<rparr>)"
  using assms by (simp add: load_caches_def Let_def)

lemma load_caches_calls: "calls (snd (load_caches env s)) = calls s @ [GetEndpoints ''k8s'']"
  by (cases "get_endpoints env (etcd s) ''k8s''")
     (simp_all add: load_caches_ok load_caches_raises fold_cache_calls)

lemma load_caches_etcd: "etcd (snd (load_caches env s)) = etcd s"
  by (cases "get_endpoints env (etcd s) ''k8s''")
     (simp_all add: load_caches_ok load_caches_raises fold_cache_etcd)

lemma process_labels_kd_web:
  assumes "l ''kuberdock-public-ip'' = None"
  shows "process_labels env (kd_web l n) = kd_web l None"
  using assms by (simp add: process_labels_def Let_def kd_web_simps)

lemma from_endpoint_ep_web:
  assumes "l ''kuberdock-public-ip'' = None"
  shows "from_endpoint env (ep_web l) = kd_web l None"
proof -
  have "from_endpoint env (ep_web l) = process_labels env (kd_web l None)"
    by (simp add: from_endpoint_def kd_web_def ep_web_def endpoint.extend_def kd_endpoint.fields_def)
  then show ?thesis using assms by (simp add: process_labels_kd_web)
qed

lemma demo_get_endpoints:
  "get_endpoints demo_env [] orch = Inr []"
  "get_endpoints demo_env [ep_web l] ''k8s'' = Inr [ep_web l]"
  by (simp_all add: demo_env_def list_get_endpoints_def ep_web_def)

lemma write_endpoint_calls:
  "calls (snd (write_endpoint env wid l e s)) =
     calls s @ [SetEndpoint (process_labels env (e\<lparr>labels := l\<rparr>))]"
  by (simp add: write_endpoint_def Let_def split: sum.splits)

lemma write_endpoint_returns:
  assumes "write_endpoint env wid l e s = (None, s')"
  shows "label_cache s' wid = Some l \<and>
         endpoint_cache s' wid = Some (process_labels env (e\<lparr>labels := l\<rparr>))"
  using assms by (auto simp add: write_endpoint_def Let_def split: sum.splits)

lemma update_pod_parsed:
  assumes "parse_pod env pod = Inr (pod1, wid, ns, nm, labels1)"
  shows "update_pod env pod s =
           (if label_cache s wid = Some labels1 then (None, s)
            else
              (case endpoint_cache s wid of
                 Some endpoint0 \<Rightarrow> write_endpoint env wid labels1 endpoint0 s
               | None \<Rightarrow>
                   (case load_caches env s of
                      (Some e, s1) \<Rightarrow> (Some e, s1)
                    | (None, s1) \<Rightarrow>
                        (case endpoint_cache s1 wid of
                           None \<Rightarrow> (None, s1)
                         | Some endpoint0 \<Rightarrow> write_endpoint env wid labels1 endpoint0 s1))))"
  using assms by (simp add: update_pod_def Let_def)

lemma update_pod_not_parsed:
  assumes "parse_pod env pod = Inl e"
  shows "update_pod env pod s = (Some e, s)"
  using assms by (simp add: update_pod_def)

lemma update_pod_new_calls:
  "\<exists>new. calls (snd (update_pod env pod s)) = calls s @ new \<and>
         (new = [] \<or> new = [GetEndpoints ''k8s''] \<or>
          (\<exists>ep. new = [SetEndpoint ep]) \<or> (\<exists>ep. new = [GetEndpoints ''k8s'', SetEndpoint ep]))"
proof (cases "parse_pod env pod")
  case (Inl e)
  then show ?thesis by (simp add: update_pod_not_parsed)
next
  case (Inr t)
  then obtain pod1 wid ns nm labels1 where
    p: "parse_pod env pod = Inr (pod1, wid, ns, nm, labels1)"
    by (cases t) auto
  have lc: "calls (snd (load_caches env s)) = calls s @ [GetEndpoints ''k8s'']"
    by (rule load_caches_calls)
  show ?thesis
  proof (cases "load_caches env s")
    case (Pair r s1)
    with lc have c1: "calls s1 = calls s @ [GetEndpoints ''k8s'']" by simp
    show ?thesis
      using Pair c1
      by (simp add: update_pod_parsed [OF p] write_endpoint_calls split: option.splits)
  qed
qed

lemma new_calls_append: "calls s' = calls s @ new \<Longrightarrow> new_calls s s' = new"
  by (simp add: new_calls_def)

lemma process_labels_idem: "process_labels env (process_labels env e) = process_labels env e"
  by (simp add: process_labels_def Let_def split: option.splits)

lemma load_caches_empty_demo:
  "load_caches demo_env (globals0 []) = (None, (globals0 [])\<lparr>calls := [GetEndpoints ''k8s'']\<rparr>)"
  by (simp add: load_caches_def Let_def globals0_def demo_get_endpoints)

lemma load_caches_keyed:
  assumes k: "\<And>k e. endpoint_cache s k = Some e \<Longrightarrow> workload_id e = k"
    and l: "endpoint_cache (snd (load_caches env s)) wid = Some endpoint0"
  shows "workload_id endpoint0 = wid"
proof (cases "get_endpoints env (etcd s) ''k8s''")
  case (Inl err)
  with l have "endpoint_cache s wid = Some endpoint0" by (simp add: load_caches_raises)
  then show ?thesis by (rule k)
next
  case (Inr eps)
  let ?kds = "map (from_endpoint env) eps"
  from l Inr have "(endpoint_cache s ++ map_of (rev (map (\<lambda>e. (workload_id e, e)) ?kds))) wid
                     = Some endpoint0"
    by (simp add: load_caches_ok fold_cache_endpoint_cache)
  then consider "map_of (rev (map (\<lambda>e. (workload_id e, e)) ?kds)) wid = Some endpoint0"
    | "endpoint_cache s wid = Some endpoint0"
    by (auto simp add: map_add_Some_iff)
  then show ?thesis
  proof cases
    case 1
    then have "(wid, endpoint0) \<in> set (rev (map (\<lambda>e. (workload_id e, e)) ?kds))"
      by (rule map_of_SomeD)
    then show ?thesis by auto
  next
    case 2
    then show ?thesis by (rule k)
  qed
qed

lemma update_pod_wrote:
  assumes p: "parse_pod env pod = Inr (pod1, wid, ns, nm, labels1)"
    and r: "update_pod env pod s = (None, s')"
    and w: "SetEndpoint ep \<in> set (new_calls s s')"
  shows "label_cache s' wid = Some labels1 \<and> endpoint_cache s' wid = Some ep \<and>
         (\<exists>endpoint0. ep = process_labels env (endpoint0\<lparr>labels := labels1\<rparr>) \<and>
            (endpoint_cache s wid = Some endpoint0 \<or>
             endpoint_cache (snd (load_caches env s)) wid = Some endpoint0))"
proof (cases "label_cache s wid = Some labels1")
  case True
  with r have "s' = s" by (simp add: update_pod_parsed [OF p])
  with w show ?thesis by (simp add: new_calls_def)
next
  case False
  note l = False
  show ?thesis
  proof (cases "endpoint_cache s wid")
    case (Some endpoint0)
    with l r have u: "write_endpoint env wid labels1 endpoint0 s = (None, s')"
      by (simp add: update_pod_parsed [OF p])
    have "calls s' = calls s @ [SetEndpoint (process_labels env (endpoint0\<lparr>labels := labels1\<rparr>))]"
      using write_endpoint_calls [of env wid labels1 endpoint0 s] u by simp
    then have "new_calls s s' = [SetEndpoint (process_labels env (endpoint0\<lparr>labels := labels1\<rparr>))]"
      by (rule new_calls_append)
    with w have "ep = process_labels env (endpoint0\<lparr>labels := labels1\<rparr>)" by simp
    with write_endpoint_returns [OF u] Some show ?thesis by blast
  next
    case None
    note e = None
    show ?thesis
    proof (cases "load_caches env s")
      case (Pair r1 s1)
      have c1: "calls s1 = calls s @ [GetEndpoints ''k8s'']"
        using load_caches_calls [of env s] Pair by simp
      from r l e Pair have r1: "r1 = None"
        by (cases r1) (simp_all add: update_pod_parsed [OF p])
      show ?thesis
      proof (cases "endpoint_cache s1 wid")
        case N: None
        with r l e Pair r1 have "s' = s1" by (simp add: update_pod_parsed [OF p])
        with w c1 show ?thesis by (simp add: new_calls_def)
      next
        case (Some endpoint0)
        with r l e Pair r1 have u: "write_endpoint env wid labels1 endpoint0 s1 = (None, s')"
          by (simp add: update_pod_parsed [OF p])
        have "calls s' = calls s @ [GetEndpoints ''k8s'',
                SetEndpoint (process_labels env (endpoint0\<lparr>labels := labels1\<rparr>))]"
          using write_endpoint_calls [of env wid labels1 endpoint0 s1] u c1 by simp
        then have "new_calls s s' = [GetEndpoints ''k8s'',
                SetEndpoint (process_labels env (endpoint0\<lparr>labels := labels1\<rparr>))]"
          by (rule new_calls_append)
        with w have ep: "ep = process_labels env (endpoint0\<lparr>labels := labels1\<rparr>)" by simp
        have "endpoint_cache (snd (load_caches env s)) wid = Some endpoint0"
          using Pair Some by simp
        with write_endpoint_returns [OF u] ep show ?thesis by blast
      qed
    qed
  qed
qed

lemma add_pod_calls: "calls (snd (add_pod env pod s)) = calls s"
  by (simp add: add_pod_def split: sum.splits prod.splits)

lemma try_del_removes: "try_del d k = Inr (d(k := None))"
proof (cases "d k")
  case None
  then have "d(k := None) = d" by (simp add: fun_upd_idem_iff)
  with None show ?thesis by (simp add: try_del_def del_def)
next
  case (Some v)
  then show ?thesis by (simp add: try_del_def del_def)
qed

lemma delete_pod_calls: "calls (snd (delete_pod env pod s)) = calls s"
  by (simp add: delete_pod_def try_del_removes split: sum.splits prod.splits)

lemma demo_set_endpoint:
  "set_endpoint demo_env (kd_web l n) [ep_web l0] = Inr [ep_web l]"
  by (simp add: demo_env_def list_set_endpoint_def kd_web_simps same_identity_def ep_web_def)

lemma process_labels_kd_web_public:
  "process_labels demo_env
     (kd_web [''kuberdock-public-ip'' \<mapsto> ''1.2.3.4'', ''calico/k8s_ns'' \<mapsto> ''default''] n) =
   kd_web [''kuberdock-public-ip'' \<mapsto> ''1.2.3.4'', ''calico/k8s_ns'' \<mapsto> ''default'']
     (Some [\<lparr>int_ip = ''10.0.0.5'', ext_ip = ''1.2.3.4''\<rparr>])"
proof -
  have "[''kuberdock-public-ip'' \<mapsto> ''1.2.3.4'', ''calico/k8s_ns'' \<mapsto> ''default''] \<noteq> Map.empty"
    by simp
  then show ?thesis
    by (simp add: process_labels_def Let_def kd_web_simps demo_IPAddress)
qed

lemma public_labels_differ:
  "[''calico/k8s_ns'' \<mapsto> ''default''] \<noteq>
   [''kuberdock-public-ip'' \<mapsto> ''1.2.3.4'', ''calico/k8s_ns'' \<mapsto> ''default'']"
proof
  assume "[''calico/k8s_ns'' \<mapsto> ''default''] =
          [''kuberdock-public-ip'' \<mapsto> ''1.2.3.4'', ''calico/k8s_ns'' \<mapsto> ''default'']"
  then have "[''calico/k8s_ns'' \<mapsto> ''default''] ''kuberdock-public-ip'' =
             [''kuberdock-public-ip'' \<mapsto> ''1.2.3.4'', ''calico/k8s_ns'' \<mapsto> ''default'']
               ''kuberdock-public-ip''"
    by (rule arg_cong)
  then show False by simp
qed

lemma update_pod_web_public:
  "update_pod demo_env (pod_web (Some [''kuberdock-public-ip'' \<mapsto> ''1.2.3.4'']))
     ((globals0 [ep_web [''calico/k8s_ns'' \<mapsto> ''default'']])
        \<lparr>label_cache := [''default.web'' \<mapsto> [''calico/k8s_ns'' \<mapsto> ''default'']],
         endpoint_cache := [''default.web'' \<mapsto> kd_web [''calico/k8s_ns'' \<mapsto> ''default''] None]\<rparr>) =
   (None,
    \<lparr>label_cache = [''default.web'' \<mapsto>
        [''kuberdock-public-ip'' \<mapsto> ''1.2.3.4'', ''calico/k8s_ns'' \<mapsto> ''default'']],
     endpoint_cache = [''default.web'' \<mapsto>
        kd_web [''kuberdock-public-ip'' \<mapsto> ''1.2.3.4'', ''calico/k8s_ns'' \<mapsto> ''default'']
          (Some [\<lparr>int_ip = ''10.0.0.5'', ext_ip = ''1.2.3.4''\<rparr>])],
     etcd = [ep_web [''kuberdock-public-ip'' \<mapsto> ''1.2.3.4'', ''calico/k8s_ns'' \<mapsto> ''default'']],
     calls = [SetEndpoint
        (kd_web [''kuberdock-public-ip'' \<mapsto> ''1.2.3.4'', ''calico/k8s_ns'' \<mapsto> ''default'']
          (Some [\<lparr>int_ip = ''10.0.0.5'', ext_ip = ''1.2.3.4''\<rparr>]))]\<rparr>)"
  using public_labels_differ
  by (simp add: update_pod_def parse_pod_web globals0_def write_endpoint_def Let_def
        kd_web_simps process_labels_kd_web_public demo_set_endpoint)

lemma update_pod_returned:
  assumes p: "parse_pod env pod = Inr (pod1, wid, ns, nm, labels1)"
    and r: "update_pod env pod s = (None, s1)"
  shows "label_cache s1 wid = Some labels1 \<or>
         (endpoint_cache s1 wid = None \<and>
          (\<exists>eps. get_endpoints env (etcd s) ''k8s'' = Inr eps \<and>
             s1 = fold cache_endpoint (map (from_endpoint env) eps)
                    (s\<lparr>calls := calls s @ [GetEndpoints ''k8s'']\<rparr>)))"
proof (cases "label_cache s wid = Some labels1")
  case True
  with r show ?thesis by (simp add: update_pod_parsed [OF p])
next
  case False
  note l = False
  show ?thesis
  proof (cases "endpoint_cache s wid")
    case (Some endpoint0)
    with l r have "write_endpoint env wid labels1 endpoint0 s = (None, s1)"
      by (simp add: update_pod_parsed [OF p])
    from write_endpoint_returns [OF this] show ?thesis by simp
  next
    case None
    note e = None
    show ?thesis
    proof (cases "get_endpoints env (etcd s) ''k8s''")
      case (Inl err)
      with r l e show ?thesis
        by (simp add: update_pod_parsed [OF p] load_caches_raises)
    next
      case (Inr eps)
      let ?s1 = "fold cache_endpoint (map (from_endpoint env) eps)
                    (s\<lparr>calls := calls s @ [GetEndpoints ''k8s'']\<rparr>)"
      have lc: "load_caches env s = (None, ?s1)" by (rule load_caches_ok [OF Inr])
      show ?thesis
      proof (cases "endpoint_cache ?s1 wid")
        case N: None
        with r l e lc have "s1 = ?s1" by (simp add: update_pod_parsed [OF p])
        with N Inr show ?thesis by simp
      next
        case (Some endpoint0)
        with r l e lc have "write_endpoint env wid labels1 endpoint0 ?s1 = (None, s1)"
          by (simp add: update_pod_parsed [OF p])
        from write_endpoint_returns [OF this] show ?thesis by simp
      qed
    qed
  qed
qed

lemma reload_again:
  assumes g: "get_endpoints env (etcd s) ''k8s'' = Inr eps"
    and s1: "s1 = fold cache_endpoint (map (from_endpoint env) eps)
                    (s\<lparr>calls := calls s @ [GetEndpoints ''k8s'']\<rparr>)"
  shows "\<exists>s2. load_caches env s1 = (None, s2) \<and>
           label_cache s2 = label_cache s1 \<and> endpoint_cache s2 = endpoint_cache s1 \<and>
           etcd s2 = etcd s1 \<and> calls s2 = calls s1 @ [GetEndpoints ''k8s'']"
proof -
  let ?kds = "map (from_endpoint env) eps"
  let ?s2 = "fold cache_endpoint ?kds (s1\<lparr>calls := calls s1 @ [GetEndpoints ''k8s'']\<rparr>)"
  have d: "etcd s1 = etcd s" by (simp add: s1 fold_cache_etcd)
  have lc: "load_caches env s1 = (None, ?s2)"
    using g d by (simp add: load_caches_ok)
  have l: "label_cache ?s2 = label_cache s1"
    by (simp add: fold_cache_label_cache) (simp add: s1 fold_cache_label_cache map_add_twice)
  have e: "endpoint_cache ?s2 = endpoint_cache s1"
    by (simp add: fold_cache_endpoint_cache) (simp add: s1 fold_cache_endpoint_cache map_add_twice)
  have c: "etcd ?s2 = etcd s1 \<and> calls ?s2 = calls s1 @ [GetEndpoints ''k8s'']"
    by (simp add: fold_cache_etcd fold_cache_calls)
  show ?thesis using lc l e c by blast
qed

lemma update_pod_web_reload:
  "update_pod demo_env (pod_web (Some [''app'' \<mapsto> ''web'']))
     (globals0 [ep_web [''calico/k8s_ns'' \<mapsto> ''default'']]) =
   (None,
    \<lparr>label_cache = [''default.web'' \<mapsto> [''app'' \<mapsto> ''web'', ''calico/k8s_ns'' \<mapsto> ''default'']],
     endpoint_cache = [''default.web'' \<mapsto>
        kd_web [''app'' \<mapsto> ''web'', ''calico/k8s_ns'' \<mapsto> ''default''] None],
     etcd = [ep_web [''app'' \<mapsto> ''web'', ''calico/k8s_ns'' \<mapsto> ''default'']],
     calls = [GetEndpoints ''k8s'',
        SetEndpoint (kd_web [''app'' \<mapsto> ''web'', ''calico/k8s_ns'' \<mapsto> ''default''] None)]\<rparr>)"
proof -
  let ?l0 = "[''calico/k8s_ns'' \<mapsto> ''default'']"
  let ?l1 = "[''app'' \<mapsto> ''web'', ''calico/k8s_ns'' \<mapsto> ''default'']"
  have lc: "load_caches demo_env
            \<lparr>label_cache = Map.empty, endpoint_cache = Map.empty, etcd = [ep_web ?l0], calls = []\<rparr> =
          (None, \<lparr>label_cache = [''default.web'' \<mapsto> ?l0],
                  endpoint_cache = [''default.web'' \<mapsto> kd_web ?l0 None],
                  etcd = [ep_web ?l0], calls = [GetEndpoints ''k8s'']\<rparr>)"
    by (simp add: load_caches_def Let_def demo_get_endpoints cache_endpoint_def
          from_endpoint_ep_web kd_web_simps)
  have pl: "process_labels demo_env (kd_web ?l1 None) = kd_web ?l1 None"
    by (simp add: process_labels_kd_web)
  show ?thesis
    by (simp add: update_pod_def parse_pod_web globals0_def lc write_endpoint_def Let_def
          kd_web_simps pl demo_set_endpoint)
qed

section \<open>The Pod event parser: namespace label and effect on the event\<close>

text \<open>
  Claim C9. For a Pod event that carries \<^verbatim>\<open>metadata.namespace\<close> and \<^verbatim>\<open>metadata.name\<close>,
  \<^verbatim>\<open>parse_pod\<close> returns, and the label set it returns maps the reserved namespace key to
  the Pod's namespace; when the Pod declares no labels, that entry is the whole label set.
\<close>

theorem parse_pod_namespace_label:
  assumes "metadata pod = Some md" and "md_namespace md = Some ns" and "md_name md = Some nm"
  shows "\<exists>pod1 labels1.
           parse_pod env pod = Inr (pod1, ns @ ''.'' @ nm, ns, nm, labels1) \<and>
           labels1 (K8S_NAMESPACE_LABEL env) = Some ns \<and>
           (md_labels md = None \<longrightarrow> labels1 = [K8S_NAMESPACE_LABEL env \<mapsto> ns])"
  using assms by (simp add: parse_pod_def Let_def split: option.splits)

text \<open>The Pod \<^verbatim>\<open>web\<close> of namespace \<^verbatim>\<open>default\<close>, declaring no labels.\<close>

theorem parse_pod_namespace_label_witness:
  "metadata (pod_web None) =
     Some \<lparr>md_labels = None, md_namespace = Some ''default'', md_name = Some ''web''\<rparr> \<and>
   parse_pod demo_env (pod_web None) =
     Inr (pod_web None, ''default.web'', ''default'', ''web'',
          [K8S_NAMESPACE_LABEL demo_env \<mapsto> ''default''])"
  using parse_pod_namespace_label
    [of "pod_web None" "\<lparr>md_labels = None, md_namespace = Some ''default'', md_name = Some ''web''\<rparr>"
        "''default''" "''web''" demo_env]
  by (simp add: pod_web_def parse_pod_def Let_def)

text \<open>
  Claim C5, as stated: \<^verbatim>\<open>parse_pod\<close> leaves the event object, with its
  \<^verbatim>\<open>metadata.labels\<close> mapping, unchanged. It does not: for a Pod that declares the label
  \<^verbatim>\<open>app = web\<close>, the event's own mapping holds the namespace label after the call.
\<close>

theorem parse_pod_changes_event:
  "parse_pod demo_env (pod_web (Some [''app'' \<mapsto> ''web''])) =
     Inr (pod_web (Some [''app'' \<mapsto> ''web'', ''calico/k8s_ns'' \<mapsto> ''default'']),
          ''default.web'', ''default'', ''web'',
          [''app'' \<mapsto> ''web'', ''calico/k8s_ns'' \<mapsto> ''default'']) \<and>
   pod_web (Some [''app'' \<mapsto> ''web'', ''calico/k8s_ns'' \<mapsto> ''default'']) \<noteq>
     pod_web (Some [''app'' \<mapsto> ''web''])"
  using web_labels_differ by (simp add: parse_pod_web) (simp add: pod_web_def)

text \<open>
  Claim C5, amended. \<^verbatim>\<open>parse_pod\<close> takes and returns no process-wide state. When it
  returns, the event had a namespace and a name, which are returned as they are; an event
  without \<^verbatim>\<open>metadata.labels\<close> is left unchanged; in an event with \<^verbatim>\<open>metadata.labels\<close>
  that mapping, and nothing else, is replaced by the returned label set, which is the
  mapping with the namespace label written into it.
\<close>

theorem parse_pod_event_frame:
  assumes "parse_pod env pod = Inr (pod1, wid, ns, nm, labels1)"
  shows "\<exists>md. metadata pod = Some md \<and>
           md_namespace md = Some ns \<and> md_name md = Some nm \<and>
           (case md_labels md of
              None \<Rightarrow> pod1 = pod \<and> labels1 = [K8S_NAMESPACE_LABEL env \<mapsto> ns]
            | Some l \<Rightarrow>
                labels1 = l(K8S_NAMESPACE_LABEL env \<mapsto> ns) \<and>
                pod1 = pod\<lparr>metadata := Some (md\<lparr>md_labels := Some labels1\<rparr>)\<rparr>)"
  using assms by (auto simp add: parse_pod_def Let_def split: option.splits)

theorem parse_pod_event_frame_witness:
  "parse_pod demo_env (pod_web (Some [''app'' \<mapsto> ''web''])) =
     Inr (pod_web (Some [''app'' \<mapsto> ''web'', ''calico/k8s_ns'' \<mapsto> ''default'']),
          ''default.web'', ''default'', ''web'',
          [''app'' \<mapsto> ''web'', ''calico/k8s_ns'' \<mapsto> ''default'']) \<and>
   (\<exists>md. metadata (pod_web (Some [''app'' \<mapsto> ''web''])) = Some md \<and>
      md_labels md = Some [''app'' \<mapsto> ''web''] \<and>
      pod_web (Some [''app'' \<mapsto> ''web'', ''calico/k8s_ns'' \<mapsto> ''default'']) =
        pod_web (Some [''app'' \<mapsto> ''web''])
          \<lparr>metadata := Some (md\<lparr>md_labels :=
             Some [''app'' \<mapsto> ''web'', K8S_NAMESPACE_LABEL demo_env \<mapsto> ''default'']\<rparr>)\<rparr>)"
  using parse_pod_event_frame
    [of demo_env "pod_web (Some [''app'' \<mapsto> ''web''])"
        "pod_web (Some [''app'' \<mapsto> ''web'', ''calico/k8s_ns'' \<mapsto> ''default''])"
        "''default.web''" "''default''" "''web''"
        "[''app'' \<mapsto> ''web'', ''calico/k8s_ns'' \<mapsto> ''default'']"]
  by (simp add: parse_pod_web) (simp add: pod_web_def demo_env_def)

section \<open>The Add and Delete handlers\<close>

text \<open>
  Claim C6. For a Pod event that \<^verbatim>\<open>parse_pod\<close> accepts, \<^verbatim>\<open>add_pod\<close> returns and leaves
  the label cache mapping the workload id, which is \<^verbatim>\<open>namespace.name\<close>, to the parsed label
  set, which carries the namespace label; any previous entry is overwritten, the endpoint
  cache and the datastore are as before, and no call is made on the datastore client.
\<close>

theorem add_pod_label_cache:
  assumes "parse_pod env pod = Inr (pod1, wid, ns, nm, labels1)"
  shows "add_pod env pod s = (None, s\<lparr>label_cache := (label_cache s)(wid \<mapsto> labels1)\<rparr>) \<and>
         wid = ns @ ''.'' @ nm \<and>
         labels1 (K8S_NAMESPACE_LABEL env) = Some ns \<and>
         label_cache (snd (add_pod env pod s)) wid = Some labels1 \<and>
         endpoint_cache (snd (add_pod env pod s)) = endpoint_cache s \<and>
         etcd (snd (add_pod env pod s)) = etcd s \<and>
         calls (snd (add_pod env pod s)) = calls s"
proof -
  have "add_pod env pod s = (None, s\<lparr>label_cache := (label_cache s)(wid \<mapsto> labels1)\<rparr>)"
    using assms by (simp add: add_pod_def)
  moreover have "wid = ns @ ''.'' @ nm \<and> labels1 (K8S_NAMESPACE_LABEL env) = Some ns"
    using assms by (auto simp add: parse_pod_def Let_def split: option.splits)
  ultimately show ?thesis by simp
qed

theorem add_pod_label_cache_witness:
  "parse_pod demo_env (pod_web (Some [''app'' \<mapsto> ''web''])) =
     Inr (pod_web (Some [''app'' \<mapsto> ''web'', ''calico/k8s_ns'' \<mapsto> ''default'']),
          ''default.web'', ''default'', ''web'',
          [''app'' \<mapsto> ''web'', ''calico/k8s_ns'' \<mapsto> ''default'']) \<and>
   add_pod demo_env (pod_web (Some [''app'' \<mapsto> ''web'']))
       ((globals0 [])\<lparr>label_cache := [''default.web'' \<mapsto> [''old'' \<mapsto> ''x'']]\<rparr>) =
     (None, (globals0 [])\<lparr>label_cache :=
        [''default.web'' \<mapsto> [''app'' \<mapsto> ''web'', ''calico/k8s_ns'' \<mapsto> ''default'']]\<rparr>)"
  using add_pod_label_cache
    [of demo_env "pod_web (Some [''app'' \<mapsto> ''web''])"
        "pod_web (Some [''app'' \<mapsto> ''web'', ''calico/k8s_ns'' \<mapsto> ''default''])"
        "''default.web''" "''default''" "''web''"
        "[''app'' \<mapsto> ''web'', ''calico/k8s_ns'' \<mapsto> ''default'']"
        "(globals0 [])\<lparr>label_cache := [''default.web'' \<mapsto> [''old'' \<mapsto> ''x'']]\<rparr>"]
  by (simp add: parse_pod_web)

text \<open>
  Claim C7. For a Pod event that \<^verbatim>\<open>parse_pod\<close> accepts, \<^verbatim>\<open>delete_pod\<close> returns, whether or
  not the workload has an entry in either cache; afterwards neither cache has an entry for
  the workload, every other entry is as before, the datastore is as before and no call is
  made on the datastore client.
\<close>

theorem delete_pod_removes:
  assumes "parse_pod env pod = Inr (pod1, wid, ns, nm, labels1)"
  shows "delete_pod env pod s =
           (None, s\<lparr>label_cache := (label_cache s)(wid := None),
                     endpoint_cache := (endpoint_cache s)(wid := None)\<rparr>) \<and>
         label_cache (snd (delete_pod env pod s)) wid = None \<and>
         endpoint_cache (snd (delete_pod env pod s)) wid = None \<and>
         etcd (snd (delete_pod env pod s)) = etcd s \<and>
         calls (snd (delete_pod env pod s)) = calls s"
proof -
  have "delete_pod env pod s =
           (None, s\<lparr>label_cache := (label_cache s)(wid := None),
                     endpoint_cache := (endpoint_cache s)(wid := None)\<rparr>)"
    using assms by (simp add: delete_pod_def try_del_removes)
  then show ?thesis by simp
qed

theorem delete_pod_removes_witness:
  "parse_pod demo_env (pod_web None) =
     Inr (pod_web None, ''default.web'', ''default'', ''web'', [''calico/k8s_ns'' \<mapsto> ''default'']) \<and>
   delete_pod demo_env (pod_web None)
       ((globals0 [])\<lparr>label_cache := [''default.web'' \<mapsto> [''calico/k8s_ns'' \<mapsto> ''default'']]\<rparr>) =
     (None, globals0 []) \<and>
   delete_pod demo_env (pod_web None) (globals0 []) = (None, globals0 [])"
  using delete_pod_removes
    [of demo_env "pod_web None" "pod_web None" "''default.web''" "''default''" "''web''"
        "[''calico/k8s_ns'' \<mapsto> ''default'']"
        "(globals0 [])\<lparr>label_cache := [''default.web'' \<mapsto> [''calico/k8s_ns'' \<mapsto> ''default'']]\<rparr>"]
    delete_pod_removes
    [of demo_env "pod_web None" "pod_web None" "''default.web''" "''default''" "''web''"
        "[''calico/k8s_ns'' \<mapsto> ''default'']" "globals0 []"]
  by (simp add: parse_pod_web globals0_def)

section \<open>The endpoint adapter: NAT derivation and serialisation\<close>

text \<open>
  Claim C2. For an endpoint whose label set is not empty, \<^verbatim>\<open>process_labels\<close> returns (it
  never raises) and leaves every other field as it was. A value under the key
  \<^verbatim>\<open>kuberdock-public-ip\<close> counts as a valid address when \<^verbatim>\<open>IPAddress\<close> returns on it and it
  passes the truth test of line 145, that is, it is not the empty string. For a valid value
  the NAT mapping is the list with one entry per element of \<^verbatim>\<open>ipv4_nets\<close>, in order, pairing
  that network's address with the value; for a value that is not valid, and for an absent
  key, the NAT mapping is \<^verbatim>\<open>None\<close>.
\<close>

theorem process_labels_nat:
  assumes "labels self \<noteq> Map.empty"
  shows "ipv4_nat (process_labels env self) =
           (case labels self ''kuberdock-public-ip'' of
              None \<Rightarrow> None
            | Some v \<Rightarrow>
                if IPAddress env (Some v) \<and> v \<noteq> []
                then Some (map (\<lambda>n. \<lparr>int_ip = ip n, ext_ip = v\<rparr>) (ipv4_nets self))
                else None) \<and>
         endpoint.truncate (process_labels env self) = endpoint.truncate self"
proof -
  have "ipv4_nat (process_labels env self) =
           (case labels self ''kuberdock-public-ip'' of
              None \<Rightarrow> None
            | Some v \<Rightarrow>
                if IPAddress env (Some v) \<and> v \<noteq> []
                then Some (map (\<lambda>n. \<lparr>int_ip = ip n, ext_ip = v\<rparr>) (ipv4_nets self))
                else None)"
    using assms by (simp add: process_labels_def Let_def split: option.splits)
  then show ?thesis by (simp add: process_labels_truncate)
qed

text \<open>
  The two examples of the claim: the value \<^verbatim>\<open>1.2.3.4\<close> with the single internal prefix
  \<^verbatim>\<open>10.0.0.5/32\<close>, and the value \<^verbatim>\<open>not-an-ip\<close>.
\<close>

theorem process_labels_nat_witness:
  "labels (kd_web [''kuberdock-public-ip'' \<mapsto> ''1.2.3.4''] None) \<noteq> Map.empty \<and>
   labels (kd_web [''kuberdock-public-ip'' \<mapsto> ''not-an-ip''] None) \<noteq> Map.empty \<and>
   ipv4_nets (kd_web [''kuberdock-public-ip'' \<mapsto> ''1.2.3.4''] None) =
     [\<lparr>ip = ''10.0.0.5'', prefixlen = 32\<rparr>] \<and>
   ipv4_nat (process_labels demo_env (kd_web [''kuberdock-public-ip'' \<mapsto> ''1.2.3.4''] None)) =
     Some [\<lparr>int_ip = ''10.0.0.5'', ext_ip = ''1.2.3.4''\<rparr>] \<and>
   ipv4_nat (process_labels demo_env (kd_web [''kuberdock-public-ip'' \<mapsto> ''not-an-ip''] None)) =
     None"
  using process_labels_nat [of "kd_web [''kuberdock-public-ip'' \<mapsto> ''1.2.3.4''] None" demo_env]
    process_labels_nat [of "kd_web [''kuberdock-public-ip'' \<mapsto> ''not-an-ip''] None" demo_env]
  by (simp add: kd_web_simps demo_IPAddress)

text \<open>
  Claim C10. Provided the dictionary of the base class has no key \<^verbatim>\<open>ipv4_nat\<close> of its own,
  the dictionary that \<^verbatim>\<open>to_json\<close> serialises has that key exactly when the field
  \<^verbatim>\<open>ipv4_nat\<close> is neither \<^verbatim>\<open>None\<close> nor the empty list. For an endpoint with a valid
  \<^verbatim>\<open>kuberdock-public-ip\<close> label and no internal IPv4 prefix, \<^verbatim>\<open>process_labels\<close> sets the
  field to the empty list, not to \<^verbatim>\<open>None\<close>, and \<^verbatim>\<open>to_json\<close> then leaves the key out: the
  result is the one of the same endpoint with no NAT mapping.
\<close>

theorem to_json_ipv4_nat_key:
  assumes "''ipv4_nat'' \<notin> fst ` set (super_to_json env (endpoint.truncate self))"
  shows "(''ipv4_nat'' \<in> fst ` set (to_json env self)) =
           (ipv4_nat self \<noteq> None \<and> ipv4_nat self \<noteq> Some []) \<and>
         (labels self ''kuberdock-public-ip'' = Some v \<and> IPAddress env (Some v) \<and> v \<noteq> [] \<and>
          ipv4_nets self = [] \<longrightarrow>
            ipv4_nat (process_labels env self) = Some [] \<and>
            ''ipv4_nat'' \<notin> fst ` set (to_json env (process_labels env self)) \<and>
            to_json env (process_labels env self) = to_json env (self\<lparr>ipv4_nat := None\<rparr>))"
proof -
  have a: "(''ipv4_nat'' \<in> fst ` set (to_json env self)) =
           (ipv4_nat self \<noteq> None \<and> ipv4_nat self \<noteq> Some [])"
  proof (cases "ipv4_nat self")
    case None
    then show ?thesis using assms by (simp add: to_json_def)
  next
    case (Some entries)
    then show ?thesis using assms by (simp add: to_json_def Let_def dom_update)
  qed
  have b: "ipv4_nat (process_labels env self) = Some [] \<and>
           ''ipv4_nat'' \<notin> fst ` set (to_json env (process_labels env self)) \<and>
           to_json env (process_labels env self) = to_json env (self\<lparr>ipv4_nat := None\<rparr>)"
    if h: "labels self ''kuberdock-public-ip'' = Some v" "IPAddress env (Some v)" "v \<noteq> []"
      "ipv4_nets self = []"
  proof -
    from h(1) have ne: "labels self \<noteq> Map.empty" by auto
    have n: "ipv4_nat (process_labels env self) = Some []"
      using h ne by (simp add: process_labels_def Let_def)
    have t: "endpoint.truncate (self\<lparr>ipv4_nat := None\<rparr>) = endpoint.truncate self"
      by (simp add: endpoint.truncate_def)
    have j: "to_json env (process_labels env self) = super_to_json env (endpoint.truncate self)"
      using n by (simp add: to_json_def process_labels_truncate)
    have k: "to_json env (self\<lparr>ipv4_nat := None\<rparr>) = super_to_json env (endpoint.truncate self)"
      by (simp add: to_json_def t)
    show ?thesis using n j k assms by simp
  qed
  show ?thesis using a b by blast
qed

theorem to_json_ipv4_nat_key_witness:
  "''ipv4_nat'' \<notin> fst ` set (super_to_json demo_env
      (endpoint.truncate ((kd_web [''kuberdock-public-ip'' \<mapsto> ''1.2.3.4''] None)\<lparr>ipv4_nets := []\<rparr>))) \<and>
   labels ((kd_web [''kuberdock-public-ip'' \<mapsto> ''1.2.3.4''] None)\<lparr>ipv4_nets := []\<rparr>)
     ''kuberdock-public-ip'' = Some ''1.2.3.4'' \<and>
   IPAddress demo_env (Some ''1.2.3.4'') \<and>
   ipv4_nets ((kd_web [''kuberdock-public-ip'' \<mapsto> ''1.2.3.4''] None)\<lparr>ipv4_nets := []\<rparr>) = [] \<and>
   ipv4_nat (process_labels demo_env
      ((kd_web [''kuberdock-public-ip'' \<mapsto> ''1.2.3.4''] None)\<lparr>ipv4_nets := []\<rparr>)) = Some [] \<and>
   to_json demo_env (process_labels demo_env
      ((kd_web [''kuberdock-public-ip'' \<mapsto> ''1.2.3.4''] None)\<lparr>ipv4_nets := []\<rparr>)) =
     base_json ((ep_web [''kuberdock-public-ip'' \<mapsto> ''1.2.3.4''])\<lparr>ipv4_nets := []\<rparr>)"
proof -
  let ?e = "(kd_web [''kuberdock-public-ip'' \<mapsto> ''1.2.3.4''] None)\<lparr>ipv4_nets := []\<rparr>"
  have t: "endpoint.truncate ?e = (ep_web [''kuberdock-public-ip'' \<mapsto> ''1.2.3.4''])\<lparr>ipv4_nets := []\<rparr>"
    by (simp add: kd_web_def ep_web_def endpoint.extend_def endpoint.truncate_def kd_endpoint.fields_def)
  have s: "super_to_json demo_env = base_json" by (simp add: demo_env_def)
  have b: "''ipv4_nat'' \<notin> fst ` set (super_to_json demo_env (endpoint.truncate ?e))"
    by (simp add: s base_json_def)
  have l: "labels ?e ''kuberdock-public-ip'' = Some ''1.2.3.4''" "ipv4_nets ?e = []"
    by (simp_all add: kd_web_simps)
  have n: "endpoint.truncate (?e\<lparr>ipv4_nat := None\<rparr>) = endpoint.truncate ?e"
    by (simp add: endpoint.truncate_def)
  have "to_json demo_env (?e\<lparr>ipv4_nat := None\<rparr>) =
          base_json ((ep_web [''kuberdock-public-ip'' \<mapsto> ''1.2.3.4''])\<lparr>ipv4_nets := []\<rparr>)"
    by (simp add: to_json_def s n t)
  with to_json_ipv4_nat_key [OF b, of "''1.2.3.4''"] l demo_IPAddress(1) b
  show ?thesis by simp
qed

section \<open>The cache reloader\<close>

text \<open>
  Claim C4, as stated: after \<^verbatim>\<open>load_caches\<close> every key of either cache belongs to an
  endpoint that \<^verbatim>\<open>get_endpoints\<close> returned, and no other entry survives. It does not hold:
  \<^verbatim>\<open>load_caches\<close> never empties a cache. With entries for \<^verbatim>\<open>default.web\<close> in both caches
  and a datastore that returns no endpoint, both entries are still there afterwards.
\<close>

theorem load_caches_keeps_stale_entries:
  "get_endpoints demo_env
     (etcd ((globals0 [])
        \<lparr>label_cache := [''default.web'' \<mapsto> [''calico/k8s_ns'' \<mapsto> ''default'']],
         endpoint_cache := [''default.web'' \<mapsto> kd_web [''calico/k8s_ns'' \<mapsto> ''default''] None]\<rparr>))
     ''k8s'' = Inr [] \<and>
   load_caches demo_env
     ((globals0 [])
        \<lparr>label_cache := [''default.web'' \<mapsto> [''calico/k8s_ns'' \<mapsto> ''default'']],
         endpoint_cache := [''default.web'' \<mapsto> kd_web [''calico/k8s_ns'' \<mapsto> ''default''] None]\<rparr>) =
     (None, (globals0 [])
        \<lparr>label_cache := [''default.web'' \<mapsto> [''calico/k8s_ns'' \<mapsto> ''default'']],
         endpoint_cache := [''default.web'' \<mapsto> kd_web [''calico/k8s_ns'' \<mapsto> ''default''] None],
         calls := [GetEndpoints ''k8s'']\<rparr>)"
  by (simp add: load_caches_def Let_def globals0_def demo_get_endpoints)

text \<open>
  Claim C4, amended. When \<^verbatim>\<open>get_endpoints\<close> returns for the tag \<^verbatim>\<open>k8s\<close>, \<^verbatim>\<open>load_caches\<close>
  returns after that one call and leaves the datastore as it was. For every endpoint
  returned, both caches then hold an entry under its workload id: the endpoint converted
  by \<^verbatim>\<open>from_endpoint\<close>, and its labels; of several endpoints with one workload id the last
  one returned stays. Every entry whose key is not the workload id of a returned endpoint
  is as it was before the reload, so the keys of a cache afterwards are its former keys
  together with the workload ids returned.
\<close>

theorem load_caches_overwrites:
  assumes "get_endpoints env (etcd s) ''k8s'' = Inr eps"
  shows "\<exists>s'. load_caches env s = (None, s') \<and>
           endpoint_cache s' =
             endpoint_cache s ++
               map_of (rev (map (\<lambda>ep. (workload_id ep, from_endpoint env ep)) eps)) \<and>
           label_cache s' =
             label_cache s ++ map_of (rev (map (\<lambda>ep. (workload_id ep, labels ep)) eps)) \<and>
           dom (endpoint_cache s') = dom (endpoint_cache s) \<union> workload_id ` set eps \<and>
           dom (label_cache s') = dom (label_cache s) \<union> workload_id ` set eps \<and>
           (\<forall>k. k \<notin> workload_id ` set eps \<longrightarrow>
                endpoint_cache s' k = endpoint_cache s k \<and> label_cache s' k = label_cache s k) \<and>
           etcd s' = etcd s \<and> calls s' = calls s @ [GetEndpoints ''k8s'']"
proof -
  let ?s' = "fold cache_endpoint (map (from_endpoint env) eps)
               (s\<lparr>calls := calls s @ [GetEndpoints ''k8s'']\<rparr>)"
  let ?E = "map_of (rev (map (\<lambda>ep. (workload_id ep, from_endpoint env ep)) eps))"
  let ?L = "map_of (rev (map (\<lambda>ep. (workload_id ep, labels ep)) eps))"
  have r: "load_caches env s = (None, ?s')" by (rule load_caches_ok [OF assms])
  have e: "endpoint_cache ?s' = endpoint_cache s ++ ?E"
    by (simp add: fold_cache_endpoint_cache comp_def from_endpoint_workload_id)
  have l: "label_cache ?s' = label_cache s ++ ?L"
    by (simp add: fold_cache_label_cache comp_def from_endpoint_workload_id from_endpoint_labels)
  have dE: "dom ?E = workload_id ` set eps"
    by (simp add: dom_map_of_conv_image_fst image_image)
  have dL: "dom ?L = workload_id ` set eps"
    by (simp add: dom_map_of_conv_image_fst image_image)
  have de: "dom (endpoint_cache ?s') = dom (endpoint_cache s) \<union> workload_id ` set eps"
    using dE by (auto simp add: e)
  have dl: "dom (label_cache ?s') = dom (label_cache s) \<union> workload_id ` set eps"
    using dL by (auto simp add: l)
  have k: "\<forall>k. k \<notin> workload_id ` set eps \<longrightarrow>
             endpoint_cache ?s' k = endpoint_cache s k \<and> label_cache ?s' k = label_cache s k"
    using dE dL by (auto simp add: e l map_add_dom_app_simps)
  have c: "etcd ?s' = etcd s \<and> calls ?s' = calls s @ [GetEndpoints ''k8s'']"
    by (simp add: fold_cache_etcd fold_cache_calls)
  show ?thesis using r e l de dl k c by blast
qed

theorem load_caches_overwrites_witness:
  "get_endpoints demo_env
     (etcd ((globals0 [ep_web [''calico/k8s_ns'' \<mapsto> ''default'']])
        \<lparr>label_cache := [''default.old'' \<mapsto> [''calico/k8s_ns'' \<mapsto> ''default'']]\<rparr>))
     ''k8s'' = Inr [ep_web [''calico/k8s_ns'' \<mapsto> ''default'']] \<and>
   load_caches demo_env
     ((globals0 [ep_web [''calico/k8s_ns'' \<mapsto> ''default'']])
        \<lparr>label_cache := [''default.old'' \<mapsto> [''calico/k8s_ns'' \<mapsto> ''default'']]\<rparr>) =
     (None, (globals0 [ep_web [''calico/k8s_ns'' \<mapsto> ''default'']])
        \<lparr>label_cache := [''default.old'' \<mapsto> [''calico/k8s_ns'' \<mapsto> ''default''],
                         ''default.web'' \<mapsto> [''calico/k8s_ns'' \<mapsto> ''default'']],
         endpoint_cache := [''default.web'' \<mapsto> kd_web [''calico/k8s_ns'' \<mapsto> ''default''] None],
         calls := [GetEndpoints ''k8s'']\<rparr>)"
proof -
  let ?l = "[''calico/k8s_ns'' \<mapsto> ''default'']"
  let ?s = "(globals0 [ep_web ?l])\<lparr>label_cache := [''default.old'' \<mapsto> ?l]\<rparr>"
  have g: "get_endpoints demo_env (etcd ?s) ''k8s'' = Inr [ep_web ?l]"
    by (simp add: globals0_def demo_get_endpoints)
  have w: "workload_id (ep_web ?l) = ''default.web''" "labels (ep_web ?l) = ?l"
    by (simp_all add: ep_web_def)
  have f: "from_endpoint demo_env (ep_web ?l) = kd_web ?l None"
    by (simp add: from_endpoint_ep_web)
  from load_caches_overwrites [OF g] obtain s' where
    r: "load_caches demo_env ?s = (None, s')" and
    e: "endpoint_cache s' = endpoint_cache ?s ++ [''default.web'' \<mapsto> kd_web ?l None]" and
    l: "label_cache s' = label_cache ?s ++ [''default.web'' \<mapsto> ?l]" and
    d: "etcd s' = etcd ?s" and c: "calls s' = calls ?s @ [GetEndpoints ''k8s'']"
    by (auto simp add: w f)
  have "s' = (globals0 [ep_web ?l])
        \<lparr>label_cache := [''default.old'' \<mapsto> ?l, ''default.web'' \<mapsto> ?l],
         endpoint_cache := [''default.web'' \<mapsto> kd_web ?l None],
         calls := [GetEndpoints ''k8s'']\<rparr>"
    using e l d c by (simp add: globals0_def)
  with r g show ?thesis by simp
qed

section \<open>The Update handler\<close>

text \<open>
  Claim C3. Every invocation of \<^verbatim>\<open>update_pod\<close>, whatever the event and the state and
  whether it returns or raises, adds to the call log at most one \<^verbatim>\<open>set_endpoint\<close> and at
  most one \<^verbatim>\<open>get_endpoints\<close>. For an event whose labels differ from the cached labels and
  whose workload has no entry in the endpoint cache, the handler runs \<^verbatim>\<open>load_caches\<close> once,
  which is one \<^verbatim>\<open>get_endpoints\<close> call for the tag \<^verbatim>\<open>k8s\<close>, and looks the workload up
  once more in the reloaded cache: if it is still absent the handler returns with the
  reloaded state, having made no other call and left the datastore as it was; if it is
  present the handler goes on to the single write.
\<close>

theorem update_pod_reload_once:
  "(\<exists>new. calls (snd (update_pod env pod s)) = calls s @ new \<and>
          length (filter is_write new) \<le> 1 \<and> length (filter is_read new) \<le> 1) \<and>
   (parse_pod env pod = Inr (pod1, wid, ns, nm, labels1) \<and>
    label_cache s wid \<noteq> Some labels1 \<and> endpoint_cache s wid = None \<longrightarrow>
      (case load_caches env s of
         (Some e, s1) \<Rightarrow>
           update_pod env pod s = (Some e, s1) \<and> new_calls s s1 = [GetEndpoints ''k8s'']
       | (None, s1) \<Rightarrow>
           (case endpoint_cache s1 wid of
              None \<Rightarrow>
                update_pod env pod s = (None, s1) \<and>
                new_calls s s1 = [GetEndpoints ''k8s''] \<and> etcd s1 = etcd s
            | Some endpoint0 \<Rightarrow>
                update_pod env pod s = write_endpoint env wid labels1 endpoint0 s1 \<and>
                new_calls s (snd (update_pod env pod s)) =
                  [GetEndpoints ''k8s'',
                   SetEndpoint (process_labels env (endpoint0\<lparr>labels := labels1\<rparr>))])))"
  (is "?general \<and> (?scenario \<longrightarrow> ?reload)")
proof -
  have general: ?general
  proof -
    from update_pod_new_calls [of env pod s] obtain new where
      c: "calls (snd (update_pod env pod s)) = calls s @ new" and
      n: "new = [] \<or> new = [GetEndpoints ''k8s''] \<or>
          (\<exists>ep. new = [SetEndpoint ep]) \<or> (\<exists>ep. new = [GetEndpoints ''k8s'', SetEndpoint ep])"
      by blast
    from n have "length (filter is_write new) \<le> 1 \<and> length (filter is_read new) \<le> 1"
      by auto
    with c show ?thesis by blast
  qed
  have scenario: ?reload
    if p: "parse_pod env pod = Inr (pod1, wid, ns, nm, labels1)"
      and l: "label_cache s wid \<noteq> Some labels1" and e: "endpoint_cache s wid = None"
  proof (cases "load_caches env s")
    case (Pair r s1)
    have c1: "calls s1 = calls s @ [GetEndpoints ''k8s'']"
      using load_caches_calls [of env s] Pair by simp
    have d1: "etcd s1 = etcd s"
      using load_caches_etcd [of env s] Pair by simp
    have n1: "new_calls s s1 = [GetEndpoints ''k8s'']"
      by (rule new_calls_append [OF c1])
    show ?thesis
    proof (cases r)
      case (Some err)
      then show ?thesis using Pair l e n1 by (simp add: update_pod_parsed [OF p])
    next
      case None
      show ?thesis
      proof (cases "endpoint_cache s1 wid")
        case N: None
        then show ?thesis using Pair None l e n1 d1 by (simp add: update_pod_parsed [OF p])
      next
        case (Some endpoint0)
        have u: "update_pod env pod s = write_endpoint env wid labels1 endpoint0 s1"
          using Pair None Some l e by (simp add: update_pod_parsed [OF p])
        have "calls (snd (update_pod env pod s)) =
                calls s @ [GetEndpoints ''k8s'',
                   SetEndpoint (process_labels env (endpoint0\<lparr>labels := labels1\<rparr>))]"
          by (simp add: u write_endpoint_calls c1)
        then have "new_calls s (snd (update_pod env pod s)) =
                  [GetEndpoints ''k8s'',
                   SetEndpoint (process_labels env (endpoint0\<lparr>labels := labels1\<rparr>))]"
          by (rule new_calls_append)
        then show ?thesis using Pair None Some u by simp
      qed
    qed
  qed
  show ?thesis
  proof (intro conjI impI)
    show ?general by (rule general)
  next
    assume h: ?scenario
    show ?reload by (rule scenario) (simp_all add: h)
  qed
qed

text \<open>An update for the Pod \<^verbatim>\<open>web\<close> while both caches and the datastore are empty.\<close>

theorem update_pod_reload_once_witness:
  "parse_pod demo_env (pod_web None) =
     Inr (pod_web None, ''default.web'', ''default'', ''web'', [''calico/k8s_ns'' \<mapsto> ''default'']) \<and>
   label_cache (globals0 []) ''default.web'' \<noteq> Some [''calico/k8s_ns'' \<mapsto> ''default''] \<and>
   endpoint_cache (globals0 []) ''default.web'' = None \<and>
   update_pod demo_env (pod_web None) (globals0 []) =
     (None, (globals0 [])\<lparr>calls := [GetEndpoints ''k8s'']\<rparr>) \<and>
   new_calls (globals0 []) ((globals0 [])\<lparr>calls := [GetEndpoints ''k8s'']\<rparr>) =
     [GetEndpoints ''k8s'']"
proof -
  have c: "label_cache (globals0 []) ''default.web'' \<noteq> Some [''calico/k8s_ns'' \<mapsto> ''default'']"
    "endpoint_cache (globals0 []) ''default.web'' = None"
    "endpoint_cache ((globals0 [])\<lparr>calls := [GetEndpoints ''k8s'']\<rparr>) ''default.web'' = None"
    by (simp_all add: globals0_def)
  show ?thesis
    using update_pod_reload_once
      [of demo_env "pod_web None" "globals0 []" "pod_web None" "''default.web''" "''default''"
          "''web''" "[''calico/k8s_ns'' \<mapsto> ''default'']"] c
    by (simp add: parse_pod_web load_caches_empty_demo)
qed

text \<open>
  Claim C8. \<^verbatim>\<open>add_pod\<close> and \<^verbatim>\<open>delete_pod\<close> make no call on the datastore client. When
  \<^verbatim>\<open>update_pod\<close> has returned and has called \<^verbatim>\<open>set_endpoint\<close> with an endpoint, the label
  cache maps the event's workload id to the event's label set, the endpoint cache maps it
  to the endpoint that was written, and that endpoint carries those labels together with
  the NAT mapping derived from them. If every endpoint in the endpoint cache was stored
  under its own workload id before the invocation, the endpoint written is the one of the
  event's workload.
\<close>

theorem update_pod_write_updates_caches:
  "calls (snd (add_pod env pod s)) = calls s \<and>
   calls (snd (delete_pod env pod s)) = calls s \<and>
   (parse_pod env pod = Inr (pod1, wid, ns, nm, labels1) \<and>
    update_pod env pod s = (None, s') \<and> SetEndpoint ep \<in> set (new_calls s s') \<longrightarrow>
      label_cache s' wid = Some labels1 \<and> endpoint_cache s' wid = Some ep \<and>
      labels ep = labels1 \<and> process_labels env ep = ep \<and>
      ((\<forall>k e. endpoint_cache s k = Some e \<longrightarrow> workload_id e = k) \<longrightarrow> workload_id ep = wid))"
  (is "?add \<and> ?delete \<and> (?wrote \<longrightarrow> ?both)")
proof (intro conjI impI)
  show ?add by (rule add_pod_calls)
  show ?delete by (rule delete_pod_calls)
next
  assume h: ?wrote
  then have p: "parse_pod env pod = Inr (pod1, wid, ns, nm, labels1)"
    and r: "update_pod env pod s = (None, s')"
    and w: "SetEndpoint ep \<in> set (new_calls s s')"
    by simp_all
  from update_pod_wrote [OF p r w] obtain endpoint0 where
    c: "label_cache s' wid = Some labels1" "endpoint_cache s' wid = Some ep" and
    ep: "ep = process_labels env (endpoint0\<lparr>labels := labels1\<rparr>)" and
    o: "endpoint_cache s wid = Some endpoint0 \<or>
        endpoint_cache (snd (load_caches env s)) wid = Some endpoint0"
    by blast
  show "label_cache s' wid = Some labels1" by (rule c(1))
  show "endpoint_cache s' wid = Some ep" by (rule c(2))
  show "labels ep = labels1" by (simp add: ep process_labels_labels)
  show "process_labels env ep = ep" by (simp add: ep process_labels_idem)
  assume k: "\<forall>k e. endpoint_cache s k = Some e \<longrightarrow> workload_id e = k"
  from o have "workload_id endpoint0 = wid"
  proof
    assume "endpoint_cache s wid = Some endpoint0"
    with k show ?thesis by blast
  next
    assume lc: "endpoint_cache (snd (load_caches env s)) wid = Some endpoint0"
    have "\<And>k e. endpoint_cache s k = Some e \<Longrightarrow> workload_id e = k"
      using k by blast
    then show ?thesis using lc by (rule load_caches_keyed)
  qed
  then show "workload_id ep = wid" by (simp add: ep process_labels_workload_id)
qed

text \<open>
  An update that gives the cached endpoint of the Pod \<^verbatim>\<open>web\<close> the public address
  \<^verbatim>\<open>1.2.3.4\<close>.
\<close>

theorem update_pod_write_updates_caches_witness:
  "parse_pod demo_env (pod_web (Some [''kuberdock-public-ip'' \<mapsto> ''1.2.3.4''])) =
     Inr (pod_web (Some [''kuberdock-public-ip'' \<mapsto> ''1.2.3.4'', ''calico/k8s_ns'' \<mapsto> ''default'']),
          ''default.web'', ''default'', ''web'',
          [''kuberdock-public-ip'' \<mapsto> ''1.2.3.4'', ''calico/k8s_ns'' \<mapsto> ''default'']) \<and>
   update_pod demo_env (pod_web (Some [''kuberdock-public-ip'' \<mapsto> ''1.2.3.4'']))
     ((globals0 [ep_web [''calico/k8s_ns'' \<mapsto> ''default'']])
        \<lparr>label_cache := [''default.web'' \<mapsto> [''calico/k8s_ns'' \<mapsto> ''default'']],
         endpoint_cache := [''default.web'' \<mapsto> kd_web [''calico/k8s_ns'' \<mapsto> ''default''] None]\<rparr>) =
     (None,
      \<lparr>label_cache = [''default.web'' \<mapsto>
          [''kuberdock-public-ip'' \<mapsto> ''1.2.3.4'', ''calico/k8s_ns'' \<mapsto> ''default'']],
       endpoint_cache = [''default.web'' \<mapsto>
          kd_web [''kuberdock-public-ip'' \<mapsto> ''1.2.3.4'', ''calico/k8s_ns'' \<mapsto> ''default'']
            (Some [\<lparr>int_ip = ''10.0.0.5'', ext_ip = ''1.2.3.4''\<rparr>])],
       etcd = [ep_web [''kuberdock-public-ip'' \<mapsto> ''1.2.3.4'', ''calico/k8s_ns'' \<mapsto> ''default'']],
       calls = [SetEndpoint
          (kd_web [''kuberdock-public-ip'' \<mapsto> ''1.2.3.4'', ''calico/k8s_ns'' \<mapsto> ''default'']
            (Some [\<lparr>int_ip = ''10.0.0.5'', ext_ip = ''1.2.3.4''\<rparr>]))]\<rparr>) \<and>
   SetEndpoint
     (kd_web [''kuberdock-public-ip'' \<mapsto> ''1.2.3.4'', ''calico/k8s_ns'' \<mapsto> ''default'']
        (Some [\<lparr>int_ip = ''10.0.0.5'', ext_ip = ''1.2.3.4''\<rparr>]))
     \<in> set (new_calls
         ((globals0 [ep_web [''calico/k8s_ns'' \<mapsto> ''default'']])
            \<lparr>label_cache := [''default.web'' \<mapsto> [''calico/k8s_ns'' \<mapsto> ''default'']],
             endpoint_cache := [''default.web'' \<mapsto> kd_web [''calico/k8s_ns'' \<mapsto> ''default''] None]\<rparr>)
         \<lparr>label_cache = [''default.web'' \<mapsto>
             [''kuberdock-public-ip'' \<mapsto> ''1.2.3.4'', ''calico/k8s_ns'' \<mapsto> ''default'']],
          endpoint_cache = [''default.web'' \<mapsto>
             kd_web [''kuberdock-public-ip'' \<mapsto> ''1.2.3.4'', ''calico/k8s_ns'' \<mapsto> ''default'']
               (Some [\<lparr>int_ip = ''10.0.0.5'', ext_ip = ''1.2.3.4''\<rparr>])],
          etcd = [ep_web [''kuberdock-public-ip'' \<mapsto> ''1.2.3.4'', ''calico/k8s_ns'' \<mapsto> ''default'']],
          calls = [SetEndpoint
             (kd_web [''kuberdock-public-ip'' \<mapsto> ''1.2.3.4'', ''calico/k8s_ns'' \<mapsto> ''default'']
               (Some [\<lparr>int_ip = ''10.0.0.5'', ext_ip = ''1.2.3.4''\<rparr>]))]\<rparr>) \<and>
   labels (kd_web [''kuberdock-public-ip'' \<mapsto> ''1.2.3.4'', ''calico/k8s_ns'' \<mapsto> ''default'']
            (Some [\<lparr>int_ip = ''10.0.0.5'', ext_ip = ''1.2.3.4''\<rparr>])) =
     [''kuberdock-public-ip'' \<mapsto> ''1.2.3.4'', ''calico/k8s_ns'' \<mapsto> ''default''] \<and>
   process_labels demo_env
       (kd_web [''kuberdock-public-ip'' \<mapsto> ''1.2.3.4'', ''calico/k8s_ns'' \<mapsto> ''default'']
          (Some [\<lparr>int_ip = ''10.0.0.5'', ext_ip = ''1.2.3.4''\<rparr>])) =
     kd_web [''kuberdock-public-ip'' \<mapsto> ''1.2.3.4'', ''calico/k8s_ns'' \<mapsto> ''default'']
       (Some [\<lparr>int_ip = ''10.0.0.5'', ext_ip = ''1.2.3.4''\<rparr>]) \<and>
   workload_id
       (kd_web [''kuberdock-public-ip'' \<mapsto> ''1.2.3.4'', ''calico/k8s_ns'' \<mapsto> ''default'']
          (Some [\<lparr>int_ip = ''10.0.0.5'', ext_ip = ''1.2.3.4''\<rparr>])) = ''default.web''"
proof -
  let ?l0 = "[''calico/k8s_ns'' \<mapsto> ''default'']"
  let ?l1 = "[''kuberdock-public-ip'' \<mapsto> ''1.2.3.4'', ''calico/k8s_ns'' \<mapsto> ''default'']"
  let ?pod = "pod_web (Some [''kuberdock-public-ip'' \<mapsto> ''1.2.3.4''])"
  let ?s = "(globals0 [ep_web ?l0])
              \<lparr>label_cache := [''default.web'' \<mapsto> ?l0],
               endpoint_cache := [''default.web'' \<mapsto> kd_web ?l0 None]\<rparr>"
  let ?ep = "kd_web ?l1 (Some [\<lparr>int_ip = ''10.0.0.5'', ext_ip = ''1.2.3.4''\<rparr>])"
  let ?s' = "\<lparr>label_cache = [''default.web'' \<mapsto> ?l1],
             endpoint_cache = [''default.web'' \<mapsto> ?ep],
             etcd = [ep_web ?l1], calls = [SetEndpoint ?ep]\<rparr>"
  have p: "parse_pod demo_env ?pod = Inr (pod_web (Some ?l1), ''default.web'', ''default'', ''web'', ?l1)"
    by (simp add: parse_pod_web)
  have u: "update_pod demo_env ?pod ?s = (None, ?s')"
    by (rule update_pod_web_public)
  have w: "SetEndpoint ?ep \<in> set (new_calls ?s ?s')"
    by (simp add: new_calls_def globals0_def)
  have keyed: "\<forall>k e. endpoint_cache ?s k = Some e \<longrightarrow> workload_id e = k"
    by (simp add: globals0_def kd_web_simps)
  from update_pod_write_updates_caches
    [of demo_env ?pod ?s "pod_web (Some ?l1)" "''default.web''" "''default''" "''web''" ?l1 ?s' ?ep]
    p u w keyed
  have "labels ?ep = ?l1 \<and> process_labels demo_env ?ep = ?ep \<and> workload_id ?ep = ''default.web''"
    by blast
  with p u w show ?thesis by simp
qed

text \<open>
  Claim C1. When the label set parsed from an event equals the label cache entry of its
  workload, \<^verbatim>\<open>update_pod\<close> returns the state it was given: no call, no change. After an
  invocation that has returned, a second invocation for the same workload with the same
  label set returns as well, leaves both caches and the datastore as the first left them
  and calls \<^verbatim>\<open>set_endpoint\<close> not at all; the only call it can make is the repeated
  \<^verbatim>\<open>get_endpoints\<close> when the endpoint is still unknown. If the first invocation wrote to the
  datastore, the second changes nothing whatsoever.
\<close>

theorem update_pod_idempotent:
  assumes p: "parse_pod env pod = Inr (pod1, wid, ns, nm, labels1)"
  shows "(label_cache s wid = Some labels1 \<longrightarrow> update_pod env pod s = (None, s)) \<and>
         (parse_pod env pod' = Inr (pod1', wid, ns', nm', labels1) \<and>
          update_pod env pod s = (None, s1) \<longrightarrow>
            (\<exists>s2. update_pod env pod' s1 = (None, s2) \<and>
               label_cache s2 = label_cache s1 \<and> endpoint_cache s2 = endpoint_cache s1 \<and>
               etcd s2 = etcd s1 \<and>
               (new_calls s1 s2 = [] \<or> new_calls s1 s2 = [GetEndpoints ''k8s'']) \<and>
               (list_ex is_write (new_calls s s1) \<longrightarrow> s2 = s1)))"
  (is "(?same \<longrightarrow> ?noop) \<and> (?twice \<longrightarrow> ?second)")
proof (intro conjI impI)
  assume ?same
  then show ?noop by (simp add: update_pod_parsed [OF p])
next
  assume h: ?twice
  then have p': "parse_pod env pod' = Inr (pod1', wid, ns', nm', labels1)"
    and r: "update_pod env pod s = (None, s1)"
    by simp_all
  have wrote: "label_cache s1 wid = Some labels1" if w: "list_ex is_write (new_calls s s1)"
  proof -
    from w obtain c where c: "c \<in> set (new_calls s s1)" "is_write c"
      by (auto simp add: list_ex_iff)
    from c(2) obtain ep where "c = SetEndpoint ep" by (cases c) simp_all
    with c have "SetEndpoint ep \<in> set (new_calls s s1)" by simp
    from update_pod_wrote [OF p r this] show ?thesis by simp
  qed
  show ?second
  proof (cases "label_cache s1 wid = Some labels1")
    case True
    then have "update_pod env pod' s1 = (None, s1)"
      by (simp add: update_pod_parsed [OF p'])
    then show ?thesis by (simp add: new_calls_def)
  next
    case False
    with update_pod_returned [OF p r] obtain eps where
      e: "endpoint_cache s1 wid = None" and
      g: "get_endpoints env (etcd s) ''k8s'' = Inr eps" and
      s1: "s1 = fold cache_endpoint (map (from_endpoint env) eps)
                    (s\<lparr>calls := calls s @ [GetEndpoints ''k8s'']\<rparr>)"
      by blast
    from reload_again [OF g s1] obtain s2 where
      lc: "load_caches env s1 = (None, s2)" and
      l2: "label_cache s2 = label_cache s1" and e2: "endpoint_cache s2 = endpoint_cache s1" and
      d2: "etcd s2 = etcd s1" and c2: "calls s2 = calls s1 @ [GetEndpoints ''k8s'']"
      by blast
    have u: "update_pod env pod' s1 = (None, s2)"
      using False e lc e2 by (simp add: update_pod_parsed [OF p'])
    have n: "new_calls s1 s2 = [GetEndpoints ''k8s'']"
      by (rule new_calls_append [OF c2])
    have "\<not> list_ex is_write (new_calls s s1)"
      using wrote False by blast
    with u l2 e2 d2 n show ?thesis by simp
  qed
qed

text \<open>
  The first update finds the endpoint of the Pod \<^verbatim>\<open>web\<close> by reloading and writes it; the
  second one is handed the event as the first left it.
\<close>

theorem update_pod_idempotent_witness:
  "parse_pod demo_env (pod_web (Some [''app'' \<mapsto> ''web''])) =
     Inr (pod_web (Some [''app'' \<mapsto> ''web'', ''calico/k8s_ns'' \<mapsto> ''default'']),
          ''default.web'', ''default'', ''web'',
          [''app'' \<mapsto> ''web'', ''calico/k8s_ns'' \<mapsto> ''default'']) \<and>
   parse_pod demo_env (pod_web (Some [''app'' \<mapsto> ''web'', ''calico/k8s_ns'' \<mapsto> ''default''])) =
     Inr (pod_web (Some [''app'' \<mapsto> ''web'', ''calico/k8s_ns'' \<mapsto> ''default'']),
          ''default.web'', ''default'', ''web'',
          [''app'' \<mapsto> ''web'', ''calico/k8s_ns'' \<mapsto> ''default'']) \<and>
   update_pod demo_env (pod_web (Some [''app'' \<mapsto> ''web'']))
       (globals0 [ep_web [''calico/k8s_ns'' \<mapsto> ''default'']]) =
     (None,
      \<lparr>label_cache = [''default.web'' \<mapsto> [''app'' \<mapsto> ''web'', ''calico/k8s_ns'' \<mapsto> ''default'']],
       endpoint_cache = [''default.web'' \<mapsto>
          kd_web [''app'' \<mapsto> ''web'', ''calico/k8s_ns'' \<mapsto> ''default''] None],
       etcd = [ep_web [''app'' \<mapsto> ''web'', ''calico/k8s_ns'' \<mapsto> ''default'']],
       calls = [GetEndpoints ''k8s'',
          SetEndpoint (kd_web [''app'' \<mapsto> ''web'', ''calico/k8s_ns'' \<mapsto> ''default''] None)]\<rparr>) \<and>
   update_pod demo_env (pod_web (Some [''app'' \<mapsto> ''web'', ''calico/k8s_ns'' \<mapsto> ''default'']))
       \<lparr>label_cache = [''default.web'' \<mapsto> [''app'' \<mapsto> ''web'', ''calico/k8s_ns'' \<mapsto> ''default'']],
        endpoint_cache = [''default.web'' \<mapsto>
           kd_web [''app'' \<mapsto> ''web'', ''calico/k8s_ns'' \<mapsto> ''default''] None],
        etcd = [ep_web [''app'' \<mapsto> ''web'', ''calico/k8s_ns'' \<mapsto> ''default'']],
        calls = [GetEndpoints ''k8s'',
           SetEndpoint (kd_web [''app'' \<mapsto> ''web'', ''calico/k8s_ns'' \<mapsto> ''default''] None)]\<rparr> =
     (None,
      \<lparr>label_cache = [''default.web'' \<mapsto> [''app'' \<mapsto> ''web'', ''calico/k8s_ns'' \<mapsto> ''default'']],
       endpoint_cache = [''default.web'' \<mapsto>
          kd_web [''app'' \<mapsto> ''web'', ''calico/k8s_ns'' \<mapsto> ''default''] None],
       etcd = [ep_web [''app'' \<mapsto> ''web'', ''calico/k8s_ns'' \<mapsto> ''default'']],
       calls = [GetEndpoints ''k8s'',
          SetEndpoint (kd_web [''app'' \<mapsto> ''web'', ''calico/k8s_ns'' \<mapsto> ''default''] None)]\<rparr>)"
proof -
  let ?l1 = "[''app'' \<mapsto> ''web'', ''calico/k8s_ns'' \<mapsto> ''default'']"
  let ?pod = "pod_web (Some [''app'' \<mapsto> ''web''])"
  let ?s = "globals0 [ep_web [''calico/k8s_ns'' \<mapsto> ''default'']]"
  let ?s1 = "\<lparr>label_cache = [''default.web'' \<mapsto> ?l1],
              endpoint_cache = [''default.web'' \<mapsto> kd_web ?l1 None],
              etcd = [ep_web ?l1],
              calls = [GetEndpoints ''k8s'', SetEndpoint (kd_web ?l1 None)]\<rparr>"
  have p: "parse_pod demo_env ?pod = Inr (pod_web (Some ?l1), ''default.web'', ''default'', ''web'', ?l1)"
    by (simp add: parse_pod_web)
  have p': "parse_pod demo_env (pod_web (Some ?l1)) =
              Inr (pod_web (Some ?l1), ''default.web'', ''default'', ''web'', ?l1)"
    by (simp add: parse_pod_web)
  have u: "update_pod demo_env ?pod ?s = (None, ?s1)" by (rule update_pod_web_reload)
  have w: "list_ex is_write (new_calls ?s ?s1)"
    by (simp add: new_calls_def globals0_def)
  have c: "label_cache ?s1 ''default.web'' = Some ?l1" by simp
  from update_pod_idempotent [OF p, of ?s "pod_web (Some ?l1)" "pod_web (Some ?l1)"
      "''default''" "''web''" ?s1] p' u w
  have second: "update_pod demo_env (pod_web (Some ?l1)) ?s1 = (None, ?s1)" by auto
  from update_pod_idempotent [OF p', of ?s1] c
  have "update_pod demo_env (pod_web (Some ?l1)) ?s1 = (None, ?s1)" by blast
  with p p' u second show ?thesis by simp
qed

end
